theory Spec2Isabelle
  imports Main "HOL-Library.Word"
begin

section \<open>Values shared by every variant of the package\<close>

text \<open>
  The repository holds the package \<^verbatim>\<open>lemon\<close> in several stages of its history:
  \<^item> \<^verbatim>\<open>src/lemon.go\<close>: one connection per stream, the constructor returns an error, no
    reconnect;
  \<^item> \<^verbatim>\<open>src/README.md\<close>, lines 471-861: the same stream with a connection state, a
    reconnect watchdog and a counter of failed reconnects (names suffixed \<open>_rw\<close> below);
  \<^item> \<^verbatim>\<open>src/README.md\<close>, lines 119-317: \<^verbatim>\<open>LemonMarketsStream\<close>, one object holding both
    connections (names suffixed \<open>_lms\<close> below).

  Go's \<^verbatim>\<open>uint\<close> and \<^verbatim>\<open>uint64\<close> are 64-bit words; a \<^verbatim>\<open>float64\<close> is kept as its 64-bit
  pattern, no arithmetic on it is modelled.
\<close>

type_synonym uint = "64 word"
type_synonym float64 = "64 word"

record lemonMarketSubscription =
  Action :: string
  Specifier :: string
  ISIN :: string

record Tick =
  ISIN :: string
  Price :: float64
  Quantity :: uint

record Quote =
  ISIN :: string
  Bid :: float64
  Ask :: float64
  Bidsize :: uint
  Asksize :: uint

text \<open>What \<^verbatim>\<open>getUpdateType()\<close> returns as \<^verbatim>\<open>interface{}\<close>: a pointer to a tick, a pointer to
  a quote, or (for the \<^verbatim>\<open>default\<close> branch of the type switch) anything else.\<close>

datatype update = TickPtr Tick | QuotePtr Quote | OtherValue

subsection \<open>The websocket library\<close>

text \<open>
  \<^verbatim>\<open>github.com/gorilla/websocket\<close> is an external collaborator. A connection is kept as
  the record of what was done to it: whether \<^verbatim>\<open>Close\<close> was called and which values were
  handed to \<^verbatim>\<open>WriteJSON\<close> while it was open. A read error is either a close error carrying
  a close code or any other error. The result of one \<^verbatim>\<open>ReadMessage\<close> and the outcome of a
  \<^verbatim>\<open>Dial\<close> are inputs of the model. The methods of a connection dereference it: called on
  the \<^verbatim>\<open>nil\<close> connection they panic.
\<close>

datatype ws_error = CloseError nat | NetError string

datatype read_result = ReadError ws_error | Message string

definition CloseNormalClosure :: nat where
  "CloseNormalClosure = 1000"

definition CloseGoingAway :: nat where
  "CloseGoingAway = 1001"

definition CloseAbnormalClosure :: nat where
  "CloseAbnormalClosure = 1006"

fun IsCloseError :: "ws_error \<Rightarrow> nat list \<Rightarrow> bool" where
  "IsCloseError (CloseError code) codes = (code \<in> set codes)"
| "IsCloseError (NetError detail) codes = False"

record Conn =
  closed :: bool
  written :: "lemonMarketSubscription list"

definition Dialed :: Conn where
  "Dialed = \<lparr>closed = False, written = []\<rparr>"

text \<open>\<^verbatim>\<open>WriteJSON\<close> on a closed connection returns an error, which every caller drops.\<close>

definition WriteJSON :: "lemonMarketSubscription \<Rightarrow> Conn \<Rightarrow> Conn" where
  "WriteJSON v c = (if closed c then c else c\<lparr>written := written c @ [v]\<rparr>)"

definition Close :: "Conn \<Rightarrow> Conn" where
  "Close c = c\<lparr>closed := True\<rparr>"

subsection \<open>Errors, panics and the decoder\<close>

datatype error =
    ErrConnectFailed
  | ErrConnectionClosed
  | ErrUnknownISIN
  | ErrInvalidRequest
  | ErrNotImplemented
  | WebsocketError ws_error
  | UnmarshalError string

text \<open>The ways a call can fail to return: the runtime panics of Go, and a send on a full
  buffered channel, which blocks the sender.\<close>

datatype abort =
    NilPointerDereference
  | AssignmentToEntryInNilMap
  | CloseOfClosedChannel
  | SendOnClosedChannel
  | SendBlocks

text \<open>\<^verbatim>\<open>encoding/json\<close> is external: \<^verbatim>\<open>json.Unmarshal\<close> into a tick and into a quote are
  parameters, returning the error text or the decoded value.\<close>

record json =
  UnmarshalTick :: "string \<Rightarrow> string + Tick"
  UnmarshalQuote :: "string \<Rightarrow> string + Quote"

subsection \<open>\<^verbatim>\<open>strings.Contains\<close> and the two error markers\<close>

fun HasPrefix :: "string \<Rightarrow> string \<Rightarrow> bool" where
  "HasPrefix s [] = True"
| "HasPrefix [] (c # prefix) = False"
| "HasPrefix (a # s) (c # prefix) = (a = c \<and> HasPrefix s prefix)"

fun Contains :: "string \<Rightarrow> string \<Rightarrow> bool" where
  "Contains [] substr = (substr = [])"
| "Contains (a # s) substr = (HasPrefix (a # s) substr \<or> Contains s substr)"

definition isUnknownISIN :: "string \<Rightarrow> bool" where
  "isUnknownISIN message = Contains message ''This instrument does not exist''"

definition isInvalidRequest :: "string \<Rightarrow> bool" where
  "isInvalidRequest message = Contains message ''Invalid request''"

section \<open>\<^verbatim>\<open>src/lemon.go\<close>\<close>

text \<open>
  \<^verbatim>\<open>TickStream\<close> and \<^verbatim>\<open>QuoteStream\<close> embed \<^verbatim>\<open>stream\<close> and add the update channel; the
  record below is the flattened object. A channel owned by the caller is the list of what
  the stream has sent into it; \<^verbatim>\<open>rawMessages\<close> is \<open>None\<close> while it is \<^verbatim>\<open>nil\<close>. The map of
  subscriptions is \<open>None\<close> while it is the \<^verbatim>\<open>nil\<close> map. \<open>listening\<close> is not a field of the
  source: it records that the goroutine started by \<^verbatim>\<open>go lms.listen()\<close> has not returned.
\<close>

record stream =
  connection :: "Conn option"
  processData :: bool
  subscriptions :: "(string \<rightharpoonup> uint) option"
  getUpdateType :: update
  getWebsocketUrl :: string
  getSubscription :: lemonMarketSubscription
  errorChannel :: "error list"
  rawMessages :: "string list option"
  updateChannel :: "update list"
  listening :: bool

definition connect :: "bool \<Rightarrow> stream \<Rightarrow> stream \<times> error option" where
  "connect dial_ok lms =
     (if \<not> dial_ok then (lms, Some ErrConnectFailed)
      else (lms\<lparr>connection := Some Dialed, processData := True,
                 subscriptions := Some Map.empty, listening := True\<rparr>, None))"

definition NewTickStream :: "bool \<Rightarrow> stream \<times> error option" where
  "NewTickStream dial_ok =
     connect dial_ok
       \<lparr>connection = None, processData = False, subscriptions = None,
        getUpdateType = TickPtr \<lparr>Tick.ISIN = [], Price = 0, Quantity = 0\<rparr>,
        getWebsocketUrl = ''wss://api.lemon.markets/streams/v1/marketdata'',
        getSubscription = \<lparr>Action = ''subscribe'',
                            Specifier = ''with-quantity-with-uncovered'',
                            lemonMarketSubscription.ISIN = []\<rparr>,
        errorChannel = [], rawMessages = None, updateChannel = [], listening = False\<rparr>"

definition NewQuoteStream :: "bool \<Rightarrow> stream \<times> error option" where
  "NewQuoteStream dial_ok =
     connect dial_ok
       \<lparr>connection = None, processData = False, subscriptions = None,
        getUpdateType = QuotePtr \<lparr>Quote.ISIN = [], Bid = 0, Ask = 0, Bidsize = 0, Asksize = 0\<rparr>,
        getWebsocketUrl = ''wss://api.lemon.markets/streams/v1/quotes'',
        getSubscription = \<lparr>Action = ''subscribe'',
                            Specifier = ''with-quantity-with-price'',
                            lemonMarketSubscription.ISIN = []\<rparr>,
        errorChannel = [], rawMessages = None, updateChannel = [], listening = False\<rparr>"

text \<open>Reading a \<^verbatim>\<open>nil\<close> map finds nothing; assigning into it panics; a method of a \<^verbatim>\<open>nil\<close>
  connection dereferences it.\<close>

definition exists :: "(string \<rightharpoonup> uint) option \<Rightarrow> string \<Rightarrow> bool" where
  "exists m isin = (case m of None \<Rightarrow> False | Some subs \<Rightarrow> subs isin \<noteq> None)"

definition Subscribe :: "string \<Rightarrow> stream \<Rightarrow> abort + stream" where
  "Subscribe isin lms =
     (if \<not> exists (subscriptions lms) isin then
        (case subscriptions lms of
           None \<Rightarrow> Inl AssignmentToEntryInNilMap
         | Some subs \<Rightarrow>
             (case connection lms of
                None \<Rightarrow> Inl NilPointerDereference
              | Some c \<Rightarrow>
                  Inr (lms\<lparr>subscriptions := Some (subs(isin \<mapsto> 1)),
                           connection :=
                             Some (WriteJSON ((getSubscription lms)\<lparr>lemonMarketSubscription.ISIN := isin\<rparr>) c)\<rparr>)))
      else Inr lms)"

definition Unsubscribe :: "string \<Rightarrow> stream \<Rightarrow> abort + stream" where
  "Unsubscribe isin lms =
     (if exists (subscriptions lms) isin then
        (case subscriptions lms of
           None \<Rightarrow> Inr lms
         | Some subs \<Rightarrow>
             (case connection lms of
                None \<Rightarrow> Inl NilPointerDereference
              | Some c \<Rightarrow>
                  Inr (lms\<lparr>subscriptions := Some (subs(isin := None)),
                           connection :=
                             Some (WriteJSON \<lparr>Action = ''unsubscribe'', Specifier = [],
                                              lemonMarketSubscription.ISIN = isin\<rparr> c)\<rparr>)))
      else Inr lms)"

definition Disconnect :: "stream \<Rightarrow> abort + stream" where
  "Disconnect lms =
     (case connection lms of
        None \<Rightarrow> Inl NilPointerDereference
      | Some c \<Rightarrow> Inr (lms\<lparr>processData := False, connection := Some (Close c)\<rparr>))"

definition SetRawMessageChannel :: "string list option \<Rightarrow> stream \<Rightarrow> stream" where
  "SetRawMessageChannel channel lms = lms\<lparr>rawMessages := channel\<rparr>"

definition emit :: "error \<Rightarrow> stream \<Rightarrow> stream" where
  "emit e lms = lms\<lparr>errorChannel := errorChannel lms @ [e]\<rparr>"

definition tap :: "string \<Rightarrow> stream \<Rightarrow> stream" where
  "tap msg lms =
     (case rawMessages lms of
        None \<Rightarrow> lms
      | Some sent \<Rightarrow> lms\<lparr>rawMessages := Some (sent @ [msg])\<rparr>)"

definition sendUpdate :: "update \<Rightarrow> stream \<Rightarrow> stream" where
  "sendUpdate u lms = lms\<lparr>updateChannel := updateChannel lms @ [u]\<rparr>"

text \<open>The decoding at the end of the loop body: the type switch on the update.\<close>

definition decode :: "json \<Rightarrow> string \<Rightarrow> stream \<Rightarrow> stream" where
  "decode j msg lms =
     (case getUpdateType lms of
        TickPtr t \<Rightarrow>
          (case UnmarshalTick j msg of
             Inl decodeError \<Rightarrow> emit (UnmarshalError decodeError) lms
           | Inr tick \<Rightarrow> sendUpdate (TickPtr tick) lms)
      | QuotePtr q \<Rightarrow>
          (case UnmarshalQuote j msg of
             Inl decodeError \<Rightarrow> emit (UnmarshalError decodeError) lms
           | Inr quote \<Rightarrow> sendUpdate (QuotePtr quote) lms)
      | OtherValue \<Rightarrow> emit ErrNotImplemented lms)"

text \<open>One turn of the loop of \<^verbatim>\<open>listen\<close>, from the moment \<^verbatim>\<open>ReadMessage\<close> has returned
  \<open>r\<close>. The first branch is the \<^verbatim>\<open>return\<close>.\<close>

definition listen_turn :: "json \<Rightarrow> read_result \<Rightarrow> stream \<Rightarrow> stream" where
  "listen_turn j r lms =
     (if \<not> processData lms then lms\<lparr>listening := False\<rparr>
      else
        (case r of
           ReadError err \<Rightarrow>
             (if IsCloseError err [CloseGoingAway, CloseNormalClosure, CloseAbnormalClosure]
              then emit ErrConnectionClosed (lms\<lparr>processData := False\<rparr>)
              else emit (WebsocketError err) (lms\<lparr>processData := False\<rparr>))
         | Message msg \<Rightarrow>
             (if isUnknownISIN msg then emit ErrUnknownISIN lms
              else if isInvalidRequest msg then emit ErrInvalidRequest lms
              else decode j msg (tap msg lms))))"

text \<open>The loop itself, run on the successive results of \<^verbatim>\<open>ReadMessage\<close>. It leaves the
  loop only through the \<^verbatim>\<open>return\<close>; with no further result it waits in \<^verbatim>\<open>ReadMessage\<close>.\<close>

fun listen :: "json \<Rightarrow> read_result list \<Rightarrow> stream \<Rightarrow> stream" where
  "listen j [] lms = lms"
| "listen j (r # rs) lms =
     (if \<not> processData lms then listen_turn j r lms
      else listen j rs (listen_turn j r lms))"

section \<open>\<^verbatim>\<open>src/README.md\<close>, lines 471-861: the stream with the reconnect watchdog\<close>

definition State_init :: string where
  "State_init = ''initalizing''"

definition State_connecting :: string where
  "State_connecting = ''connecting''"

definition State_connected :: string where
  "State_connected = ''connected''"

definition State_disconnected :: string where
  "State_disconnected = ''disconnected''"

definition State_waiting_to_reconnect :: string where
  "State_waiting_to_reconnect = ''waiting to reconnect''"

text \<open>
  \<^verbatim>\<open>reconnectNotifier\<close> is \<^verbatim>\<open>make(chan uint, 1)\<close>: the values waiting in its buffer, and
  whether \<^verbatim>\<open>close\<close> was called on it.
\<close>

record chan =
  buffered :: "uint list"
  chan_closed :: bool

text \<open>
  Where the goroutine of \<^verbatim>\<open>reconnectWatchdog\<close> stands: at the \<^verbatim>\<open>range\<close> over the
  notifier, in \<^verbatim>\<open>time.Sleep\<close>, or returned (the channel was closed and is empty).
\<close>

datatype watchdog_at = AtRange | AtSleep | Returned

text \<open>
  The fields of the source, and three that record what the goroutines do: \<open>listening\<close> as
  above, \<open>watchdog\<close>, and \<open>slept\<close>, the minutes passed to \<^verbatim>\<open>time.Sleep\<close> so far. The map and
  the notifier are made by \<^verbatim>\<open>init\<close>, which both constructors call first, so they are never
  \<^verbatim>\<open>nil\<close> here.
\<close>

record stream_rw =
  connection :: "Conn option"
  processData :: bool
  subscriptions :: "string \<rightharpoonup> uint"
  getUpdateType :: update
  getWebsocketUrl :: string
  getSubscription :: "string \<Rightarrow> lemonMarketSubscription"
  reconnectNotifier :: chan
  failedReconnects :: int
  state :: string
  errorChannel :: "error list"
  rawMessages :: "string list option"
  updateChannel :: "update list"
  listening :: bool
  watchdog :: watchdog_at
  slept :: "int list"

text \<open>Sequencing of calls that may not return.\<close>

definition and_then :: "abort + 'a \<Rightarrow> ('a \<Rightarrow> abort + 'b) \<Rightarrow> abort + 'b" where
  "and_then r f = (case r of Inl a \<Rightarrow> Inl a | Inr x \<Rightarrow> f x)"

definition init_rw :: "stream_rw \<Rightarrow> stream_rw" where
  "init_rw stream =
     stream\<lparr>state := State_init, subscriptions := Map.empty,
            reconnectNotifier := \<lparr>buffered = [], chan_closed = False\<rparr>,
            failedReconnects := 0, watchdog := AtRange\<rparr>"

text \<open>\<^verbatim>\<open>lms.reconnectNotifier <- 1\<close>\<close>

definition notify :: "stream_rw \<Rightarrow> abort + stream_rw" where
  "notify lms =
     (if chan_closed (reconnectNotifier lms) then Inl SendOnClosedChannel
      else if 1 \<le> length (buffered (reconnectNotifier lms)) then Inl SendBlocks
      else Inr (lms\<lparr>reconnectNotifier :=
                      (reconnectNotifier lms)\<lparr>buffered := buffered (reconnectNotifier lms) @ [1]\<rparr>\<rparr>))"

definition emit_rw :: "error \<Rightarrow> stream_rw \<Rightarrow> stream_rw" where
  "emit_rw e lms = lms\<lparr>errorChannel := errorChannel lms @ [e]\<rparr>"

definition sendSubscription :: "lemonMarketSubscription \<Rightarrow> stream_rw \<Rightarrow> abort + stream_rw" where
  "sendSubscription subscription lms =
     (case connection lms of
        None \<Rightarrow> Inl NilPointerDereference
      | Some c \<Rightarrow> Inr (lms\<lparr>connection := Some (WriteJSON subscription c)\<rparr>))"

text \<open>
  \<^verbatim>\<open>for isin, _ := range lms.subscriptions\<close>: Go fixes no order for the keys of a map. The
  order in which one \<^verbatim>\<open>range\<close> yields them is an input, \<open>isins\<close>; it is an order of the map
  when it lists every key once.
\<close>

definition range_of :: "string list \<Rightarrow> (string \<rightharpoonup> uint) \<Rightarrow> bool" where
  "range_of isins subs = (distinct isins \<and> set isins = dom subs)"

fun replay :: "string list \<Rightarrow> stream_rw \<Rightarrow> abort + stream_rw" where
  "replay [] lms = Inr lms"
| "replay (isin # isins) lms =
     and_then (sendSubscription (getSubscription lms isin) lms) (replay isins)"

definition connect_rw :: "bool \<Rightarrow> string list \<Rightarrow> stream_rw \<Rightarrow> abort + stream_rw" where
  "connect_rw dial_ok isins lms =
     (if \<not> dial_ok then
        notify ((emit_rw ErrConnectFailed lms)
                  \<lparr>failedReconnects :=
                     (if failedReconnects lms \<le> 5 then failedReconnects lms + 1
                      else failedReconnects lms)\<rparr>)
      else
        replay isins
          (lms\<lparr>connection := Some Dialed, processData := True, failedReconnects := 0,
               state := State_connected, listening := True\<rparr>))"

text \<open>
  \<^verbatim>\<open>reconnectWatchdog\<close> in its two halves: the \<^verbatim>\<open>range\<close> yields a value (or ends, or keeps
  waiting) and the goroutine goes to sleep; the sleep ends and it connects.
\<close>

definition reconnectWatchdog_range :: "stream_rw \<Rightarrow> stream_rw" where
  "reconnectWatchdog_range stream =
     (case buffered (reconnectNotifier stream) of
        [] \<Rightarrow> (if chan_closed (reconnectNotifier stream) then stream\<lparr>watchdog := Returned\<rparr>
               else stream)
      | v # vs \<Rightarrow>
          stream\<lparr>reconnectNotifier := (reconnectNotifier stream)\<lparr>buffered := vs\<rparr>,
                 state := State_waiting_to_reconnect,
                 slept := slept stream @ [failedReconnects stream],
                 watchdog := AtSleep\<rparr>)"

definition reconnectWatchdog_wake :: "bool \<Rightarrow> string list \<Rightarrow> stream_rw \<Rightarrow> abort + stream_rw" where
  "reconnectWatchdog_wake dial_ok isins stream =
     and_then (connect_rw dial_ok isins (stream\<lparr>state := State_connecting\<rparr>))
       (\<lambda>stream'. Inr (stream'\<lparr>watchdog := AtRange\<rparr>))"

text \<open>The constructors. The map is empty when they connect, so the \<^verbatim>\<open>range\<close> of the
  replay yields nothing.\<close>

definition NewTickStream_rw :: "bool \<Rightarrow> abort + stream_rw" where
  "NewTickStream_rw dial_ok =
     connect_rw dial_ok []
       ((init_rw
          \<lparr>connection = None, processData = False, subscriptions = Map.empty,
           getUpdateType = TickPtr \<lparr>Tick.ISIN = [], Price = 0, Quantity = 0\<rparr>,
           getWebsocketUrl = ''wss://api.lemon.markets/streams/v1/marketdata'',
           getSubscription =
             (\<lambda>isin. \<lparr>Action = ''subscribe'', Specifier = ''with-quantity-with-uncovered'',
                       lemonMarketSubscription.ISIN = isin\<rparr>),
           reconnectNotifier = \<lparr>buffered = [], chan_closed = False\<rparr>,
           failedReconnects = 0, state = [], errorChannel = [], rawMessages = None,
           updateChannel = [], listening = False, watchdog = AtRange, slept = []\<rparr>)
        \<lparr>state := State_connecting\<rparr>)"

definition NewQuoteStream_rw :: "bool \<Rightarrow> abort + stream_rw" where
  "NewQuoteStream_rw dial_ok =
     connect_rw dial_ok []
       ((init_rw
          \<lparr>connection = None, processData = False, subscriptions = Map.empty,
           getUpdateType =
             QuotePtr \<lparr>Quote.ISIN = [], Bid = 0, Ask = 0, Bidsize = 0, Asksize = 0\<rparr>,
           getWebsocketUrl = ''wss://api.lemon.markets/streams/v1/quotes'',
           getSubscription =
             (\<lambda>isin. \<lparr>Action = ''subscribe'', Specifier = ''with-quantity-with-price'',
                       lemonMarketSubscription.ISIN = isin\<rparr>),
           reconnectNotifier = \<lparr>buffered = [], chan_closed = False\<rparr>,
           failedReconnects = 0, state = [], errorChannel = [], rawMessages = None,
           updateChannel = [], listening = False, watchdog = AtRange, slept = []\<rparr>)
        \<lparr>state := State_connecting\<rparr>)"

definition Subscribe_rw :: "string \<Rightarrow> stream_rw \<Rightarrow> abort + stream_rw" where
  "Subscribe_rw isin lms =
     (if subscriptions lms isin = None then
        sendSubscription (getSubscription lms isin)
          (lms\<lparr>subscriptions := (subscriptions lms)(isin \<mapsto> 1)\<rparr>)
      else Inr lms)"

definition Unsubscribe_rw :: "string \<Rightarrow> stream_rw \<Rightarrow> abort + stream_rw" where
  "Unsubscribe_rw isin lms =
     (if subscriptions lms isin \<noteq> None then
        (case connection lms of
           None \<Rightarrow> Inl NilPointerDereference
         | Some c \<Rightarrow>
             Inr (lms\<lparr>subscriptions := (subscriptions lms)(isin := None),
                      connection :=
                        Some (WriteJSON \<lparr>Action = ''unsubscribe'', Specifier = [],
                                         lemonMarketSubscription.ISIN = isin\<rparr> c)\<rparr>))
      else Inr lms)"

definition GetState :: "stream_rw \<Rightarrow> string" where
  "GetState lms = state lms"

definition GetSubscriptions :: "string list \<Rightarrow> stream_rw \<Rightarrow> string list" where
  "GetSubscriptions isins lms = foldl (\<lambda>subs isin. subs @ [isin]) [] isins"

definition Disconnect_rw :: "stream_rw \<Rightarrow> abort + stream_rw" where
  "Disconnect_rw lms =
     (case connection lms of
        None \<Rightarrow> Inl NilPointerDereference
      | Some c \<Rightarrow>
          (if chan_closed (reconnectNotifier lms) then Inl CloseOfClosedChannel
           else Inr (lms\<lparr>state := State_disconnected, processData := False,
                         connection := Some (Close c),
                         reconnectNotifier := (reconnectNotifier lms)\<lparr>chan_closed := True\<rparr>\<rparr>)))"

definition SetRawMessageChannel_rw :: "string list option \<Rightarrow> stream_rw \<Rightarrow> stream_rw" where
  "SetRawMessageChannel_rw channel lms = lms\<lparr>rawMessages := channel\<rparr>"

definition tap_rw :: "string \<Rightarrow> stream_rw \<Rightarrow> stream_rw" where
  "tap_rw msg lms =
     (case rawMessages lms of
        None \<Rightarrow> lms
      | Some sent \<Rightarrow> lms\<lparr>rawMessages := Some (sent @ [msg])\<rparr>)"

definition sendUpdate_rw :: "update \<Rightarrow> stream_rw \<Rightarrow> stream_rw" where
  "sendUpdate_rw u lms = lms\<lparr>updateChannel := updateChannel lms @ [u]\<rparr>"

definition decode_rw :: "json \<Rightarrow> string \<Rightarrow> stream_rw \<Rightarrow> stream_rw" where
  "decode_rw j msg lms =
     (case getUpdateType lms of
        TickPtr t \<Rightarrow>
          (case UnmarshalTick j msg of
             Inl decodeError \<Rightarrow> emit_rw (UnmarshalError decodeError) lms
           | Inr tick \<Rightarrow> sendUpdate_rw (TickPtr tick) lms)
      | QuotePtr q \<Rightarrow>
          (case UnmarshalQuote j msg of
             Inl decodeError \<Rightarrow> emit_rw (UnmarshalError decodeError) lms
           | Inr quote \<Rightarrow> sendUpdate_rw (QuotePtr quote) lms)
      | OtherValue \<Rightarrow> emit_rw ErrNotImplemented lms)"

text \<open>
  One turn of \<^verbatim>\<open>for lms.processData { ... }\<close> in \<^verbatim>\<open>listen\<close>, from the moment \<^verbatim>\<open>ReadMessage\<close>
  has returned \<open>r\<close> up to the next test of the loop condition, which decides whether the
  goroutine reads again.
\<close>

definition loop_test :: "stream_rw \<Rightarrow> stream_rw" where
  "loop_test lms = lms\<lparr>listening := processData lms\<rparr>"

definition listen_turn_rw :: "json \<Rightarrow> read_result \<Rightarrow> stream_rw \<Rightarrow> abort + stream_rw" where
  "listen_turn_rw j r lms =
     (case r of
        ReadError err \<Rightarrow>
          and_then
            (let lms1 =
                   (if IsCloseError err [CloseGoingAway, CloseNormalClosure, CloseAbnormalClosure]
                    then emit_rw ErrConnectionClosed (lms\<lparr>processData := False\<rparr>)
                    else emit_rw (WebsocketError err) (lms\<lparr>processData := False\<rparr>))
             in if state lms1 \<noteq> State_disconnected then notify lms1 else Inr lms1)
            (\<lambda>lms2. Inr (loop_test lms2))
      | Message msg \<Rightarrow>
          Inr (loop_test
                 (if isUnknownISIN msg then emit_rw ErrUnknownISIN lms
                  else if isInvalidRequest msg then emit_rw ErrInvalidRequest lms
                  else decode_rw j msg (tap_rw msg lms))))"

text \<open>
  The stream among its three threads of control. An event is a call of the user, the
  return of \<^verbatim>\<open>ReadMessage\<close> in the listening goroutine, or one of the two halves of the
  watchdog. Each runs to its next blocking point without interruption. An event of a
  goroutine that is not at that point does not happen: the stream stays as it is.
\<close>

datatype event =
    CallSubscribe string
  | CallUnsubscribe string
  | CallDisconnect
  | CallSetRawMessageChannel "string list option"
  | ReadReturns read_result
  | RangeYields
  | SleepEnds bool "string list"

fun step_rw :: "json \<Rightarrow> event \<Rightarrow> stream_rw \<Rightarrow> abort + stream_rw" where
  "step_rw j (CallSubscribe isin) lms = Subscribe_rw isin lms"
| "step_rw j (CallUnsubscribe isin) lms = Unsubscribe_rw isin lms"
| "step_rw j CallDisconnect lms = Disconnect_rw lms"
| "step_rw j (CallSetRawMessageChannel channel) lms = Inr (SetRawMessageChannel_rw channel lms)"
| "step_rw j (ReadReturns r) lms =
     (if listening lms then listen_turn_rw j r lms else Inr lms)"
| "step_rw j RangeYields lms =
     (if watchdog lms = AtRange then Inr (reconnectWatchdog_range lms) else Inr lms)"
| "step_rw j (SleepEnds dial_ok isins) lms =
     (if watchdog lms = AtSleep then reconnectWatchdog_wake dial_ok isins lms else Inr lms)"

fun run_rw :: "json \<Rightarrow> event list \<Rightarrow> stream_rw \<Rightarrow> abort + stream_rw" where
  "run_rw j [] lms = Inr lms"
| "run_rw j (ev # evs) lms = and_then (step_rw j ev lms) (run_rw j evs)"

text \<open>The calls that change the map of subscriptions.\<close>

fun registry_call :: "event \<Rightarrow> bool" where
  "registry_call (CallSubscribe isin) = True"
| "registry_call (CallUnsubscribe isin) = True"
| "registry_call ev = False"

text \<open>The counter of failed reconnects and every sleep of the watchdog, between 0 and 6
  (minutes).\<close>

definition within_6 :: "stream_rw \<Rightarrow> bool" where
  "within_6 lms = (0 \<le> failedReconnects lms \<and> failedReconnects lms \<le> 6
                   \<and> (\<forall>minutes\<in>set (slept lms). 0 \<le> minutes \<and> minutes \<le> 6))"

section \<open>\<^verbatim>\<open>src/README.md\<close>, lines 119-317: \<^verbatim>\<open>LemonMarketsStream\<close>\<close>

definition ACTION_SUBSCRIBE :: string where
  "ACTION_SUBSCRIBE = ''subscribe''"

definition ACTION_UNSUBSCRIBE :: string where
  "ACTION_UNSUBSCRIBE = ''subscribe''"

definition SPECIFIER_WITH_QUANTITIY_AND_UNCOVERED :: string where
  "SPECIFIER_WITH_QUANTITIY_AND_UNCOVERED = ''with-quantity-with-uncovered''"

definition SPECIFIER_WITH_QUANTITY_WITH_PRICE :: string where
  "SPECIFIER_WITH_QUANTITY_WITH_PRICE = ''with-quantity-with-price''"

text \<open>The two connections, the flag of the workers and the map; the three pipes, which
  \<^verbatim>\<open>Subscribe\<close> and \<^verbatim>\<open>Unsubscribe\<close> do not touch, are left out.\<close>

record LemonMarketsStream =
  marketdataConnection :: "Conn option"
  quotesConnection :: "Conn option"
  quitWorkers :: bool
  subscriptions :: "(string \<rightharpoonup> int) option"

definition connect_lms :: "bool \<Rightarrow> bool \<Rightarrow> LemonMarketsStream \<Rightarrow> LemonMarketsStream \<times> error option" where
  "connect_lms marketdata_ok quotes_ok lms =
     (if \<not> marketdata_ok then (lms, Some ErrConnectFailed)
      else if \<not> quotes_ok then (lms, Some ErrConnectFailed)
      else (lms\<lparr>marketdataConnection := Some Dialed, quotesConnection := Some Dialed,
                 quitWorkers := False, subscriptions := Some Map.empty\<rparr>, None))"

definition NewLemonMarketsStream :: "bool \<Rightarrow> bool \<Rightarrow> error + LemonMarketsStream" where
  "NewLemonMarketsStream marketdata_ok quotes_ok =
     (case connect_lms marketdata_ok quotes_ok
             \<lparr>marketdataConnection = None, quotesConnection = None, quitWorkers = False,
              subscriptions = None\<rparr> of
        (lms, Some err) \<Rightarrow> Inl err
      | (lms, None) \<Rightarrow> Inr lms)"

definition Subscribe_lms :: "string \<Rightarrow> LemonMarketsStream \<Rightarrow> abort + LemonMarketsStream" where
  "Subscribe_lms isin lms =
     (case subscriptions lms of
        None \<Rightarrow> Inl AssignmentToEntryInNilMap
      | Some subs \<Rightarrow>
          (if subs isin = None then
             (case (marketdataConnection lms, quotesConnection lms) of
                (Some m, Some q) \<Rightarrow>
                  Inr (lms\<lparr>subscriptions := Some (subs(isin \<mapsto> 1)),
                           marketdataConnection :=
                             Some (WriteJSON \<lparr>Action = ACTION_SUBSCRIBE,
                                              Specifier = SPECIFIER_WITH_QUANTITIY_AND_UNCOVERED,
                                              lemonMarketSubscription.ISIN = isin\<rparr> m),
                           quotesConnection :=
                             Some (WriteJSON \<lparr>Action = ACTION_SUBSCRIBE,
                                              Specifier = SPECIFIER_WITH_QUANTITY_WITH_PRICE,
                                              lemonMarketSubscription.ISIN = isin\<rparr> q)\<rparr>)
              | _ \<Rightarrow> Inl NilPointerDereference)
           else Inr lms))"

definition Unsubscribe_lms :: "string \<Rightarrow> LemonMarketsStream \<Rightarrow> abort + LemonMarketsStream" where
  "Unsubscribe_lms isin lms =
     (case subscriptions lms of
        None \<Rightarrow> Inr lms
      | Some subs \<Rightarrow>
          (if subs isin \<noteq> None then
             (case (marketdataConnection lms, quotesConnection lms) of
                (Some m, Some q) \<Rightarrow>
                  Inr (lms\<lparr>subscriptions := Some (subs(isin := None)),
                           marketdataConnection :=
                             Some (WriteJSON \<lparr>Action = ACTION_UNSUBSCRIBE, Specifier = [],
                                              lemonMarketSubscription.ISIN = isin\<rparr> m),
                           quotesConnection :=
                             Some (WriteJSON \<lparr>Action = ACTION_UNSUBSCRIBE, Specifier = [],
                                              lemonMarketSubscription.ISIN = isin\<rparr> q)\<rparr>)
              | _ \<Rightarrow> Inl NilPointerDereference)
           else Inr lms))"

section \<open>A decoder for the examples\<close>

text \<open>The examples below need some decoder: this one rejects every payload.\<close>

definition rejecting :: json where
  "rejecting = \<lparr>UnmarshalTick = (\<lambda>msg. Inl ''rejected''),
                 UnmarshalQuote = (\<lambda>msg. Inl ''rejected'')\<rparr>"

section \<open>Evaluation\<close>

text \<open>The definitions that evaluate a concrete run of each stream.\<close>

lemmas go_eval =
  NewTickStream_def NewQuoteStream_def connect_def Dialed_def listen_turn_def emit_def tap_def
  decode_def sendUpdate_def SetRawMessageChannel_def isUnknownISIN_def isInvalidRequest_def
  CloseGoingAway_def CloseNormalClosure_def CloseAbnormalClosure_def rejecting_def

lemmas rw_eval =
  NewTickStream_rw_def connect_rw_def init_rw_def emit_rw_def notify_def and_then_def
  Disconnect_rw_def listen_turn_rw_def loop_test_def reconnectWatchdog_range_def
  reconnectWatchdog_wake_def Subscribe_rw_def Unsubscribe_rw_def sendSubscription_def
  WriteJSON_def Close_def Dialed_def GetState_def
  State_init_def State_connecting_def State_connected_def State_disconnected_def
  State_waiting_to_reconnect_def
  CloseGoingAway_def CloseNormalClosure_def CloseAbnormalClosure_def

lemma and_then_Inr: "and_then r f = Inr y \<Longrightarrow> \<exists>x. r = Inr x \<and> f x = Inr y"
  by (cases r) (simp_all add: and_then_def)

section \<open>After \<^verbatim>\<open>Disconnect\<close>\<close>

text \<open>In \<^verbatim>\<open>lemon.go\<close> the loop tests \<^verbatim>\<open>processData\<close> right after the read: once
  \<^verbatim>\<open>Disconnect\<close> has returned, whatever the reads return, nothing reaches the error
  channel.\<close>

lemma listen_after_Disconnect:
  assumes "Disconnect lms = Inr lms'"
  shows "stream.errorChannel (listen j rs lms') = stream.errorChannel lms"
proof -
  from assms have off: "\<not> stream.processData lms'"
    and same: "stream.errorChannel lms' = stream.errorChannel lms"
    by (auto simp: Disconnect_def split: option.splits)
  show ?thesis
  proof (cases rs)
    case Nil
    with same show ?thesis by simp
  next
    case (Cons r rest)
    with off same show ?thesis by (simp add: listen_turn_def)
  qed
qed

text \<open>
  Claim C1 asks that after \<^verbatim>\<open>Disconnect()\<close> no \<^verbatim>\<open>ErrConnectFailed\<close> or
  \<^verbatim>\<open>ErrConnectionClosed\<close> is sent any more and the state stays \<^verbatim>\<open>disconnected\<close>. The
  stream with the watchdog does otherwise, in four runs from a connected tick stream:
  \<^item> \<^verbatim>\<open>Disconnect\<close>, then the pending read returns a close error with code 1000: the loop
    of \<^verbatim>\<open>listen\<close> sends \<^verbatim>\<open>ErrConnectionClosed\<close>;
  \<^item> the connection drops, the re-dial fails, the watchdog sleeps, \<^verbatim>\<open>Disconnect\<close> is
    called: the state is \<^verbatim>\<open>disconnected\<close>;
  \<^item> the sleep then ends and the dial succeeds: the state is \<^verbatim>\<open>connected\<close>;
  \<^item> or the dial fails: the watchdog sends on the closed notifier and panics.
\<close>

theorem Disconnect_rw_is_not_final:
  "map_sum id stream_rw.errorChannel
     (and_then (NewTickStream_rw True)
        (run_rw rejecting
           [CallDisconnect, ReadReturns (ReadError (CloseError CloseNormalClosure))]))
   = Inr [ErrConnectionClosed]
   \<and> map_sum id GetState
       (and_then (NewTickStream_rw True)
          (run_rw rejecting
             [ReadReturns (ReadError (CloseError CloseAbnormalClosure)), RangeYields,
              SleepEnds False [], RangeYields, CallDisconnect]))
     = Inr State_disconnected
   \<and> map_sum id GetState
       (and_then (NewTickStream_rw True)
          (run_rw rejecting
             [ReadReturns (ReadError (CloseError CloseAbnormalClosure)), RangeYields,
              SleepEnds False [], RangeYields, CallDisconnect, SleepEnds True []]))
     = Inr State_connected
   \<and> and_then (NewTickStream_rw True)
         (run_rw rejecting
            [ReadReturns (ReadError (CloseError CloseAbnormalClosure)), RangeYields,
             SleepEnds False [], RangeYields, CallDisconnect, SleepEnds False []])
     = Inl SendOnClosedChannel"
  by (simp add: rw_eval)

section \<open>The map of subscriptions across a drop, and the replay\<close>


lemma replay_written:
  assumes "stream_rw.connection lms = Some c" and "\<not> closed c"
  shows "replay isins lms =
           Inr (lms\<lparr>stream_rw.connection :=
                      Some (c\<lparr>written := written c @ map (stream_rw.getSubscription lms) isins\<rparr>)\<rparr>)"
  using assms
proof (induction isins arbitrary: lms c)
  case Nil
  then show ?case by simp
next
  case (Cons isin isins)
  let ?c = "WriteJSON (stream_rw.getSubscription lms isin) c"
  let ?lms = "lms\<lparr>stream_rw.connection := Some ?c\<rparr>"
  have "replay isins ?lms =
          Inr (?lms\<lparr>stream_rw.connection :=
                 Some (?c\<lparr>written := written ?c @ map (stream_rw.getSubscription ?lms) isins\<rparr>)\<rparr>)"
    using Cons.prems by (intro Cons.IH) (simp_all add: WriteJSON_def)
  then show ?case
    using Cons.prems by (simp add: and_then_def sendSubscription_def WriteJSON_def)
qed

lemma notify_keeps:
  "notify lms = Inr lms' \<Longrightarrow>
     stream_rw.subscriptions lms' = stream_rw.subscriptions lms
     \<and> stream_rw.getSubscription lms' = stream_rw.getSubscription lms"
  by (auto simp: notify_def split: if_splits)

lemma replay_keeps:
  "replay isins lms = Inr lms' \<Longrightarrow>
     stream_rw.subscriptions lms' = stream_rw.subscriptions lms
     \<and> stream_rw.getSubscription lms' = stream_rw.getSubscription lms"
proof (induction isins arbitrary: lms)
  case Nil
  then show ?case by simp
next
  case (Cons isin isins)
  from Cons.prems obtain lms1 where
    s: "sendSubscription (stream_rw.getSubscription lms isin) lms = Inr lms1"
    and r: "replay isins lms1 = Inr lms'"
    by (auto dest: and_then_Inr)
  from s have "stream_rw.subscriptions lms1 = stream_rw.subscriptions lms
     \<and> stream_rw.getSubscription lms1 = stream_rw.getSubscription lms"
    by (auto simp: sendSubscription_def split: option.splits)
  with Cons.IH [OF r] show ?case by simp
qed

lemma connect_rw_keeps:
  "connect_rw dial_ok isins lms = Inr lms' \<Longrightarrow>
     stream_rw.subscriptions lms' = stream_rw.subscriptions lms
     \<and> stream_rw.getSubscription lms' = stream_rw.getSubscription lms"
  by (auto simp: connect_rw_def emit_rw_def split: if_splits dest!: notify_keeps replay_keeps)

lemma listen_turn_rw_keeps:
  "listen_turn_rw j r lms = Inr lms' \<Longrightarrow>
     stream_rw.subscriptions lms' = stream_rw.subscriptions lms
     \<and> stream_rw.getSubscription lms' = stream_rw.getSubscription lms"
  by (cases r)
     (auto simp: listen_turn_rw_def loop_test_def emit_rw_def decode_rw_def tap_rw_def
        sendUpdate_rw_def Let_def
        split: if_splits option.splits update.splits sum.splits
        dest!: and_then_Inr notify_keeps)

lemma step_rw_keeps:
  "step_rw j ev lms = Inr lms' \<Longrightarrow> \<not> registry_call ev \<Longrightarrow>
     stream_rw.subscriptions lms' = stream_rw.subscriptions lms
     \<and> stream_rw.getSubscription lms' = stream_rw.getSubscription lms"
  by (cases ev)
     (auto simp: Disconnect_rw_def SetRawMessageChannel_rw_def reconnectWatchdog_range_def
        reconnectWatchdog_wake_def
        split: if_splits option.splits list.splits
        dest!: and_then_Inr listen_turn_rw_keeps connect_rw_keeps)

lemma run_rw_keeps:
  "run_rw j evs lms = Inr lms' \<Longrightarrow> \<forall>ev\<in>set evs. \<not> registry_call ev \<Longrightarrow>
     stream_rw.subscriptions lms' = stream_rw.subscriptions lms
     \<and> stream_rw.getSubscription lms' = stream_rw.getSubscription lms"
proof (induction evs arbitrary: lms)
  case Nil
  then show ?case by simp
next
  case (Cons ev evs)
  from Cons.prems(1) obtain lms1 where
    s: "step_rw j ev lms = Inr lms1" and r: "run_rw j evs lms1 = Inr lms'"
    by (auto dest: and_then_Inr)
  from step_rw_keeps [OF s] Cons.prems(2) Cons.IH [OF r] show ?case by simp
qed

text \<open>No event changes how a subscription message is built.\<close>

lemma step_rw_getSubscription:
  "step_rw j ev lms = Inr lms' \<Longrightarrow>
     stream_rw.getSubscription lms' = stream_rw.getSubscription lms"
proof (cases "registry_call ev")
  case False
  assume "step_rw j ev lms = Inr lms'"
  from step_rw_keeps [OF this False] show ?thesis by simp
next
  case True
  assume "step_rw j ev lms = Inr lms'"
  with True show ?thesis
    by (cases ev)
       (auto simp: Subscribe_rw_def Unsubscribe_rw_def sendSubscription_def
          split: if_splits option.splits)
qed

lemma run_rw_getSubscription:
  "run_rw j evs lms = Inr lms' \<Longrightarrow>
     stream_rw.getSubscription lms' = stream_rw.getSubscription lms"
proof (induction evs arbitrary: lms)
  case Nil
  then show ?case by simp
next
  case (Cons ev evs)
  from Cons.prems(1) obtain lms1 where
    s: "step_rw j ev lms = Inr lms1" and r: "run_rw j evs lms1 = Inr lms'"
    by (auto dest: and_then_Inr)
  from step_rw_getSubscription [OF s] Cons.IH [OF r] show ?case by simp
qed

lemma constructed_getSubscription:
  assumes "NewTickStream_rw dial_ok = Inr lms \<or> NewQuoteStream_rw dial_ok = Inr lms"
  shows "Action (stream_rw.getSubscription lms isin) = ''subscribe''
         \<and> lemonMarketSubscription.ISIN (stream_rw.getSubscription lms isin) = isin"
proof -
  from assms consider "NewTickStream_rw dial_ok = Inr lms" | "NewQuoteStream_rw dial_ok = Inr lms"
    by blast
  then show ?thesis
  proof cases
    case 1
    from connect_rw_keeps [OF 1 [unfolded NewTickStream_rw_def]] show ?thesis
      by (simp add: init_rw_def)
  next
    case 2
    from connect_rw_keeps [OF 2 [unfolded NewQuoteStream_rw_def]] show ?thesis
      by (simp add: init_rw_def)
  qed
qed

text \<open>\<^verbatim>\<open>GetSubscriptions\<close> returns the keys in the order in which its \<^verbatim>\<open>range\<close> yields them.\<close>

lemma GetSubscriptions_range: "GetSubscriptions isins lms = isins"
proof -
  have "foldl (\<lambda>subs isin. subs @ [isin]) acc isins = acc @ isins" for acc :: "string list"
    by (induction isins arbitrary: acc) simp_all
  then show ?thesis
    by (simp add: GetSubscriptions_def)
qed

text \<open>
  Claim C2. Take a stream with the watchdog, built by a constructor and used in any way.
  Whatever happens to it afterwards through events other than \<open>Subscribe\<close> and
  \<open>Unsubscribe\<close> (a failed read, the watchdog receiving the notification and going to
  sleep, a \<open>Disconnect\<close>, failed dials), its map of subscriptions is the one it had. When
  the watchdog then dials with success, the new connection is handed exactly one message
  per key of the map, in the order \<open>isins\<close> in which the \<^verbatim>\<open>range\<close> yields the keys, each
  with the action \<^verbatim>\<open>subscribe\<close>; nothing else is written to it, and the map is still
  the same.
\<close>

theorem replay_on_reconnect:
  assumes built: "NewTickStream_rw dial_ok = Inr lms0 \<or> NewQuoteStream_rw dial_ok = Inr lms0"
    and history: "run_rw j evs lms0 = Inr lms"
    and drop: "run_rw j dropped lms = Inr lms1"
    and quiet: "\<forall>ev\<in>set dropped. \<not> registry_call ev"
    and asleep: "watchdog lms1 = AtSleep"
    and order: "range_of isins (stream_rw.subscriptions lms1)"
  shows "stream_rw.subscriptions lms1 = stream_rw.subscriptions lms
         \<and> (\<exists>lms2 c.
               step_rw j (SleepEnds True isins) lms1 = Inr lms2
               \<and> stream_rw.subscriptions lms2 = stream_rw.subscriptions lms
               \<and> GetState lms2 = State_connected
               \<and> stream_rw.connection lms2 = Some c
               \<and> map lemonMarketSubscription.ISIN (written c) = isins
               \<and> map Action (written c) = replicate (length isins) ''subscribe''
               \<and> distinct isins \<and> set isins = dom (stream_rw.subscriptions lms))"
proof -
  have same: "stream_rw.subscriptions lms1 = stream_rw.subscriptions lms"
    using run_rw_keeps [OF drop quiet] by simp
  have "stream_rw.getSubscription lms1 = stream_rw.getSubscription lms0"
    using run_rw_getSubscription [OF drop] run_rw_getSubscription [OF history] by simp
  then have sub: "\<And>isin. Action (stream_rw.getSubscription lms1 isin) = ''subscribe''
         \<and> lemonMarketSubscription.ISIN (stream_rw.getSubscription lms1 isin) = isin"
    using constructed_getSubscription [OF built] by simp
  let ?before = "lms1\<lparr>state := State_connecting, stream_rw.connection := Some Dialed,
                      stream_rw.processData := True, failedReconnects := 0,
                      state := State_connected, stream_rw.listening := True\<rparr>"
  let ?c = "Dialed\<lparr>written := written Dialed @ map (stream_rw.getSubscription ?before) isins\<rparr>"
  let ?lms2 = "?before\<lparr>stream_rw.connection := Some ?c, watchdog := AtRange\<rparr>"
  have "replay isins ?before = Inr (?before\<lparr>stream_rw.connection := Some ?c\<rparr>)"
    by (rule replay_written) (simp_all add: Dialed_def)
  then have step: "step_rw j (SleepEnds True isins) lms1 = Inr ?lms2"
    using asleep by (simp add: reconnectWatchdog_wake_def connect_rw_def and_then_def)
  have isin: "map lemonMarketSubscription.ISIN (written ?c) = isins"
    using sub by (simp add: Dialed_def comp_def)
  have act: "map Action (written ?c) = replicate (length isins) ''subscribe''"
    using sub by (simp add: Dialed_def comp_def map_replicate_const)
  have "step_rw j (SleepEnds True isins) lms1 = Inr ?lms2
        \<and> stream_rw.subscriptions ?lms2 = stream_rw.subscriptions lms
        \<and> GetState ?lms2 = State_connected
        \<and> stream_rw.connection ?lms2 = Some ?c
        \<and> map lemonMarketSubscription.ISIN (written ?c) = isins
        \<and> map Action (written ?c) = replicate (length isins) ''subscribe''
        \<and> distinct isins \<and> set isins = dom (stream_rw.subscriptions lms)"
    using step same isin act order by (simp add: GetState_def range_of_def)
  then show ?thesis
    using same by blast
qed

theorem replay_on_reconnect_witness:
  "stream_rw.subscriptions
     (projr (run_rw rejecting
        [CallSubscribe ''DE000TUAG000'', CallSubscribe ''US88160R1014'',
         ReadReturns (ReadError (CloseError 1006)), RangeYields]
        (projr (NewTickStream_rw True))))
   = stream_rw.subscriptions
       (projr (run_rw rejecting [CallSubscribe ''DE000TUAG000'', CallSubscribe ''US88160R1014'']
          (projr (NewTickStream_rw True))))
   \<and> (\<exists>lms2 c.
         step_rw rejecting (SleepEnds True [''US88160R1014'', ''DE000TUAG000''])
           (projr (run_rw rejecting
              [ReadReturns (ReadError (CloseError 1006)), RangeYields]
              (projr (run_rw rejecting
                 [CallSubscribe ''DE000TUAG000'', CallSubscribe ''US88160R1014'']
                 (projr (NewTickStream_rw True)))))) = Inr lms2
         \<and> GetState lms2 = State_connected
         \<and> stream_rw.connection lms2 = Some c
         \<and> map lemonMarketSubscription.ISIN (written c) = [''US88160R1014'', ''DE000TUAG000'']
         \<and> map Action (written c) = [''subscribe'', ''subscribe''])"
proof -
  let ?fresh = "projr (NewTickStream_rw True)"
  let ?evs = "[CallSubscribe ''DE000TUAG000'', CallSubscribe ''US88160R1014'']"
  let ?used = "projr (run_rw rejecting ?evs ?fresh)"
  let ?dropped = "[ReadReturns (ReadError (CloseError 1006)), RangeYields]"
  let ?waiting = "projr (run_rw rejecting ?dropped ?used)"
  let ?isins = "[''US88160R1014'', ''DE000TUAG000'']"
  have built: "NewTickStream_rw True = Inr ?fresh \<or> NewQuoteStream_rw True = Inr ?fresh"
    by (simp add: rw_eval)
  have history: "run_rw rejecting ?evs ?fresh = Inr ?used"
    by (simp add: rw_eval)
  have drop: "run_rw rejecting ?dropped ?used = Inr ?waiting"
    by (simp add: rw_eval)
  have quiet: "\<forall>ev\<in>set ?dropped. \<not> registry_call ev"
    by simp
  have asleep: "watchdog ?waiting = AtSleep"
    by (simp add: rw_eval)
  have order: "range_of ?isins (stream_rw.subscriptions ?waiting)"
    by (simp add: rw_eval range_of_def)
  from replay_on_reconnect [OF built history drop quiet asleep order]
  show ?thesis
    by (simp add: rw_eval)
qed

section \<open>The counter of failed reconnects\<close>

text \<open>
  What \<^verbatim>\<open>connect\<close> does to the counter: a success sets it to 0, a failure adds 1 while it
  is at most 5. After a failed dial by the watchdog the notifier holds a value and the
  watchdog is back at its \<^verbatim>\<open>range\<close>, so it sleeps again, for as many minutes as the
  counter says, and dials again. From a constructor on, through any run, the counter and
  the sleeps stay between 0 and 6.
\<close>

lemma notify_failedReconnects:
  "notify lms = Inr lms' \<Longrightarrow>
     failedReconnects lms' = failedReconnects lms \<and> slept lms' = slept lms"
  by (auto simp: notify_def split: if_splits)

lemma replay_failedReconnects:
  "replay isins lms = Inr lms' \<Longrightarrow>
     failedReconnects lms' = failedReconnects lms \<and> slept lms' = slept lms"
proof (induction isins arbitrary: lms)
  case Nil
  then show ?case by simp
next
  case (Cons isin isins)
  from Cons.prems obtain lms1 where
    s: "sendSubscription (stream_rw.getSubscription lms isin) lms = Inr lms1"
    and r: "replay isins lms1 = Inr lms'"
    by (auto dest: and_then_Inr)
  from s have "failedReconnects lms1 = failedReconnects lms \<and> slept lms1 = slept lms"
    by (auto simp: sendSubscription_def split: option.splits)
  with Cons.IH [OF r] show ?case by simp
qed

lemma connect_rw_failedReconnects:
  assumes "connect_rw dial_ok isins lms = Inr lms'"
  shows "failedReconnects lms' =
           (if dial_ok then 0
            else if failedReconnects lms \<le> 5 then failedReconnects lms + 1
            else failedReconnects lms)"
    and "slept lms' = slept lms"
  using assms
  by (auto simp: connect_rw_def emit_rw_def split: if_splits
        dest!: notify_failedReconnects replay_failedReconnects)

lemma notify_buffered:
  "notify lms = Inr lms' \<Longrightarrow>
     buffered (reconnectNotifier lms') = [1] \<and> watchdog lms' = watchdog lms
     \<and> failedReconnects lms' = failedReconnects lms \<and> slept lms' = slept lms"
  by (cases "buffered (reconnectNotifier lms)") (auto simp: notify_def split: if_splits)

lemma failed_dial_is_followed_by_another:
  assumes "reconnectWatchdog_wake False isins lms = Inr lms'"
  shows "buffered (reconnectNotifier lms') = [1] \<and> watchdog lms' = AtRange
         \<and> watchdog (reconnectWatchdog_range lms') = AtSleep
         \<and> slept (reconnectWatchdog_range lms') = slept lms' @ [failedReconnects lms']"
proof -
  from assms obtain lms1 where
    n: "connect_rw False isins (lms\<lparr>state := State_connecting\<rparr>) = Inr lms1"
    and l: "lms' = lms1\<lparr>watchdog := AtRange\<rparr>"
    by (auto simp: reconnectWatchdog_wake_def dest!: and_then_Inr)
  from n have "buffered (reconnectNotifier lms1) = [1]"
    by (auto simp: connect_rw_def dest!: notify_buffered)
  with l show ?thesis
    by (simp add: reconnectWatchdog_range_def)
qed

lemma listen_turn_rw_failedReconnects:
  "listen_turn_rw j r lms = Inr lms' \<Longrightarrow>
     failedReconnects lms' = failedReconnects lms \<and> slept lms' = slept lms"
  by (cases r)
     (auto simp: listen_turn_rw_def loop_test_def emit_rw_def decode_rw_def tap_rw_def
        sendUpdate_rw_def Let_def
        split: if_splits option.splits update.splits sum.splits
        dest!: and_then_Inr notify_failedReconnects)

lemma step_rw_within_6:
  assumes "step_rw j ev lms = Inr lms'" and "within_6 lms"
  shows "within_6 lms'"
proof (cases ev)
  case (SleepEnds dial_ok isins)
  show ?thesis
  proof (cases "watchdog lms = AtSleep")
    case True
    with assms(1) SleepEnds obtain lms1 where
      c: "connect_rw dial_ok isins (lms\<lparr>state := State_connecting\<rparr>) = Inr lms1"
      and l: "lms' = lms1\<lparr>watchdog := AtRange\<rparr>"
      by (auto simp: reconnectWatchdog_wake_def dest!: and_then_Inr)
    from connect_rw_failedReconnects [OF c] l assms(2) show ?thesis
      by (auto simp: within_6_def)
  next
    case False
    with assms SleepEnds show ?thesis by simp
  qed
next
  case RangeYields
  with assms show ?thesis
    by (auto simp: within_6_def reconnectWatchdog_range_def split: if_splits list.splits)
next
  case (ReadReturns r)
  with assms show ?thesis
    by (auto simp: within_6_def split: if_splits dest!: listen_turn_rw_failedReconnects)
qed (use assms in \<open>auto simp: within_6_def Subscribe_rw_def Unsubscribe_rw_def
       sendSubscription_def Disconnect_rw_def SetRawMessageChannel_rw_def
       split: if_splits option.splits\<close>)

lemma run_rw_within_6:
  "run_rw j evs lms = Inr lms' \<Longrightarrow> within_6 lms \<Longrightarrow> within_6 lms'"
proof (induction evs arbitrary: lms)
  case Nil
  then show ?case by simp
next
  case (Cons ev evs)
  from Cons.prems(1) obtain lms1 where
    s: "step_rw j ev lms = Inr lms1" and r: "run_rw j evs lms1 = Inr lms'"
    by (auto dest: and_then_Inr)
  from Cons.IH [OF r step_rw_within_6 [OF s Cons.prems(2)]] show ?case .
qed

lemma constructed_within_6:
  assumes "NewTickStream_rw dial_ok = Inr lms \<or> NewQuoteStream_rw dial_ok = Inr lms"
  shows "within_6 lms"
proof -
  from assms consider "NewTickStream_rw dial_ok = Inr lms" | "NewQuoteStream_rw dial_ok = Inr lms"
    by blast
  then show ?thesis
  proof cases
    case 1
    from connect_rw_failedReconnects [OF 1 [unfolded NewTickStream_rw_def]] show ?thesis
      by (simp add: within_6_def init_rw_def)
  next
    case 2
    from connect_rw_failedReconnects [OF 2 [unfolded NewQuoteStream_rw_def]] show ?thesis
      by (simp add: within_6_def init_rw_def)
  qed
qed

text \<open>
  Claim C3 asks that the counter and the delay never exceed 5. Six failed dials in a row,
  the first by the constructor, bring the counter to 6, and the watchdog then sleeps 6
  minutes: the sleeps so far are 1, 2, 3, 4, 5 and 6 minutes.
\<close>

theorem failedReconnects_reaches_6:
  "map_sum id failedReconnects
     (and_then (NewTickStream_rw False)
        (run_rw rejecting
           [RangeYields, SleepEnds False [], RangeYields, SleepEnds False [],
            RangeYields, SleepEnds False [], RangeYields, SleepEnds False [],
            RangeYields, SleepEnds False [], RangeYields]))
   = Inr 6
   \<and> map_sum id slept
       (and_then (NewTickStream_rw False)
          (run_rw rejecting
             [RangeYields, SleepEnds False [], RangeYields, SleepEnds False [],
              RangeYields, SleepEnds False [], RangeYields, SleepEnds False [],
              RangeYields, SleepEnds False [], RangeYields]))
     = Inr [1, 2, 3, 4, 5, 6]"
  by (simp add: rw_eval)

section \<open>The first dial\<close>

text \<open>
  Claim C4 as it is stated, that the constructor fails when the first dial fails and
  schedules no retry, is false of the stream with the watchdog: \<^verbatim>\<open>NewTickStream\<close> with a
  failing dial returns the stream, sends \<^verbatim>\<open>ErrConnectFailed\<close> into the error channel and
  leaves a value in the notifier for the watchdog, which dials again.
\<close>

theorem NewTickStream_rw_reports_and_retries:
  "map_sum id stream_rw.errorChannel (NewTickStream_rw False) = Inr [ErrConnectFailed]
   \<and> map_sum id reconnectNotifier (NewTickStream_rw False)
       = Inr \<lparr>buffered = [1], chan_closed = False\<rparr>
   \<and> map_sum id watchdog (NewTickStream_rw False) = Inr AtRange
   \<and> map_sum id GetState
         (and_then (NewTickStream_rw False) (run_rw rejecting [RangeYields, SleepEnds True []]))
       = Inr State_connected"
  by (simp add: rw_eval)

text \<open>
  Claim C4, amended. In \<^verbatim>\<open>lemon.go\<close> \<^verbatim>\<open>NewTickStream\<close> and \<^verbatim>\<open>NewQuoteStream\<close> return
  \<^verbatim>\<open>ErrConnectFailed\<close> exactly when the dial fails; then no goroutine is started and
  nothing is sent to the error channel, so nothing retries. A later failure of the
  connection, a read error in \<^verbatim>\<open>listen\<close>, is sent to the error channel and stops the
  processing. In the stream with the watchdog the constructors return no error: a failing
  first dial is sent to the error channel as \<^verbatim>\<open>ErrConnectFailed\<close> and a reconnect is
  scheduled.
\<close>

theorem first_dial:
  "snd (NewTickStream dial_ok) = (if dial_ok then None else Some ErrConnectFailed)
   \<and> snd (NewQuoteStream dial_ok) = (if dial_ok then None else Some ErrConnectFailed)
   \<and> stream.listening (fst (NewTickStream dial_ok)) = dial_ok
   \<and> stream.listening (fst (NewQuoteStream dial_ok)) = dial_ok
   \<and> stream.errorChannel (fst (NewTickStream dial_ok)) = []
   \<and> stream.errorChannel (fst (NewQuoteStream dial_ok)) = []
   \<and> (stream.processData lms \<longrightarrow>
         stream.errorChannel (listen_turn j (ReadError err) lms)
           = stream.errorChannel lms @
               [if IsCloseError err [CloseGoingAway, CloseNormalClosure, CloseAbnormalClosure]
                then ErrConnectionClosed else WebsocketError err]
         \<and> \<not> stream.processData (listen_turn j (ReadError err) lms))
   \<and> (\<exists>lms'. NewTickStream_rw False = Inr lms'
          \<and> stream_rw.errorChannel lms' = [ErrConnectFailed]
          \<and> buffered (reconnectNotifier lms') = [1] \<and> watchdog lms' = AtRange)
   \<and> (\<exists>lms'. NewQuoteStream_rw False = Inr lms'
          \<and> stream_rw.errorChannel lms' = [ErrConnectFailed]
          \<and> buffered (reconnectNotifier lms') = [1] \<and> watchdog lms' = AtRange)"
  by (simp add: NewTickStream_def NewQuoteStream_def connect_def listen_turn_def emit_def
        NewTickStream_rw_def NewQuoteStream_rw_def connect_rw_def init_rw_def emit_rw_def
        notify_def)

theorem first_dial_witness:
  "stream.processData (fst (NewTickStream True))
   \<and> stream.errorChannel
         (listen_turn rejecting (ReadError (CloseError 1000)) (fst (NewTickStream True)))
       = [ErrConnectionClosed]
   \<and> snd (NewTickStream False) = Some ErrConnectFailed
   \<and> \<not> stream.listening (fst (NewTickStream False))"
  using first_dial [of False "fst (NewTickStream True)" rejecting "CloseError 1000"]
  by (simp add: NewTickStream_def connect_def CloseGoingAway_def CloseNormalClosure_def
        CloseAbnormalClosure_def)

section \<open>Errors that do not stop the loop\<close>

lemma decode_keeps:
  "stream.rawMessages (decode j msg lms) = stream.rawMessages lms
   \<and> stream.connection (decode j msg lms) = stream.connection lms
   \<and> stream.subscriptions (decode j msg lms) = stream.subscriptions lms
   \<and> stream.processData (decode j msg lms) = stream.processData lms"
  by (simp add: decode_def emit_def sendUpdate_def split: update.splits sum.splits)

lemma tap_keeps:
  "stream.connection (tap msg lms) = stream.connection lms
   \<and> stream.subscriptions (tap msg lms) = stream.subscriptions lms
   \<and> stream.processData (tap msg lms) = stream.processData lms
   \<and> stream.errorChannel (tap msg lms) = stream.errorChannel lms
   \<and> stream.updateChannel (tap msg lms) = stream.updateChannel lms
   \<and> stream.getUpdateType (tap msg lms) = stream.getUpdateType lms"
  by (simp add: tap_def split: option.splits)

text \<open>
  Claim C5. While the stream of \<^verbatim>\<open>lemon.go\<close> processes data, a payload holding the
  marker of an unknown instrument sends \<^verbatim>\<open>ErrUnknownISIN\<close> and changes nothing else; one
  holding the marker of an invalid request (and not the first marker) sends
  \<^verbatim>\<open>ErrInvalidRequest\<close> and changes nothing else; for both, the turn is the same whatever
  the decoder is, so the decoder is not consulted. A payload with no marker that the
  decoder rejects (or whose update type is neither a tick nor a quote) sends the decoder's
  error (or \<^verbatim>\<open>ErrNotImplemented\<close>) and delivers no update; beside that only the
  raw-message channel, if set, has received the payload. In every case the loop goes on
  with the next read, still processing, with the same connection and the same map of
  subscriptions.
\<close>

theorem listen_reports_and_goes_on:
  assumes "stream.processData lms"
  shows "(isUnknownISIN msg \<longrightarrow>
            listen_turn j (Message msg) lms
              = lms\<lparr>stream.errorChannel := stream.errorChannel lms @ [ErrUnknownISIN]\<rparr>)
       \<and> (\<not> isUnknownISIN msg \<and> isInvalidRequest msg \<longrightarrow>
            listen_turn j (Message msg) lms
              = lms\<lparr>stream.errorChannel := stream.errorChannel lms @ [ErrInvalidRequest]\<rparr>)
       \<and> (isUnknownISIN msg \<or> isInvalidRequest msg \<longrightarrow>
            listen_turn j' (Message msg) lms = listen_turn j (Message msg) lms)
       \<and> (\<not> isUnknownISIN msg \<and> \<not> isInvalidRequest msg
            \<and> stream.getUpdateType lms = TickPtr t \<and> UnmarshalTick j msg = Inl detail \<longrightarrow>
            listen_turn j (Message msg) lms
              = (tap msg lms)\<lparr>stream.errorChannel :=
                                 stream.errorChannel lms @ [UnmarshalError detail]\<rparr>
            \<and> stream.updateChannel (listen_turn j (Message msg) lms)
                = stream.updateChannel lms)
       \<and> (\<not> isUnknownISIN msg \<and> \<not> isInvalidRequest msg
            \<and> stream.getUpdateType lms = QuotePtr q \<and> UnmarshalQuote j msg = Inl detail \<longrightarrow>
            listen_turn j (Message msg) lms
              = (tap msg lms)\<lparr>stream.errorChannel :=
                                 stream.errorChannel lms @ [UnmarshalError detail]\<rparr>
            \<and> stream.updateChannel (listen_turn j (Message msg) lms)
                = stream.updateChannel lms)
       \<and> (\<not> isUnknownISIN msg \<and> \<not> isInvalidRequest msg
            \<and> stream.getUpdateType lms = OtherValue \<longrightarrow>
            listen_turn j (Message msg) lms
              = (tap msg lms)\<lparr>stream.errorChannel :=
                                 stream.errorChannel lms @ [ErrNotImplemented]\<rparr>
            \<and> stream.updateChannel (listen_turn j (Message msg) lms)
                = stream.updateChannel lms)
       \<and> listen j (Message msg # rs) lms = listen j rs (listen_turn j (Message msg) lms)
       \<and> stream.processData (listen_turn j (Message msg) lms)
       \<and> stream.connection (listen_turn j (Message msg) lms) = stream.connection lms
       \<and> stream.subscriptions (listen_turn j (Message msg) lms) = stream.subscriptions lms"
proof -
  have turn: "listen_turn j (Message msg) lms =
                (if isUnknownISIN msg then emit ErrUnknownISIN lms
                 else if isInvalidRequest msg then emit ErrInvalidRequest lms
                 else decode j msg (tap msg lms))" for j
    using assms by (simp add: listen_turn_def)
  have kept: "stream.processData (listen_turn j (Message msg) lms)
       \<and> stream.connection (listen_turn j (Message msg) lms) = stream.connection lms
       \<and> stream.subscriptions (listen_turn j (Message msg) lms) = stream.subscriptions lms"
    using assms by (simp add: turn emit_def decode_keeps tap_keeps)
  have tick: "stream.getUpdateType lms = TickPtr t \<Longrightarrow> UnmarshalTick j msg = Inl detail \<Longrightarrow>
       decode j msg (tap msg lms)
         = (tap msg lms)\<lparr>stream.errorChannel :=
                            stream.errorChannel lms @ [UnmarshalError detail]\<rparr>"
    by (simp add: decode_def emit_def tap_keeps)
  have quote: "stream.getUpdateType lms = QuotePtr q \<Longrightarrow> UnmarshalQuote j msg = Inl detail \<Longrightarrow>
       decode j msg (tap msg lms)
         = (tap msg lms)\<lparr>stream.errorChannel :=
                            stream.errorChannel lms @ [UnmarshalError detail]\<rparr>"
    by (simp add: decode_def emit_def tap_keeps)
  have other: "stream.getUpdateType lms = OtherValue \<Longrightarrow>
       decode j msg (tap msg lms)
         = (tap msg lms)\<lparr>stream.errorChannel :=
                            stream.errorChannel lms @ [ErrNotImplemented]\<rparr>"
    by (simp add: decode_def emit_def tap_keeps)
  have loop: "listen j (Message msg # rs) lms = listen j rs (listen_turn j (Message msg) lms)"
    using assms by simp
  show ?thesis
    using kept loop tick quote other
    by (simp add: turn [of j] turn [of j'] emit_def tap_keeps)
qed

theorem listen_reports_and_goes_on_witness:
  "stream.processData (fst (NewTickStream True))
   \<and> isUnknownISIN ''This instrument does not exist''
   \<and> listen rejecting [Message ''This instrument does not exist'', Message ''Invalid request'',
                       Message ''price'']
       (fst (NewTickStream True))
     = (fst (NewTickStream True))
         \<lparr>stream.errorChannel := [ErrUnknownISIN, ErrInvalidRequest, UnmarshalError ''rejected'']\<rparr>"
proof -
  have on: "stream.processData (fst (NewTickStream True))"
    by (simp add: go_eval)
  have marker: "isUnknownISIN ''This instrument does not exist''"
    by (simp add: isUnknownISIN_def)
  from listen_reports_and_goes_on [OF on, where msg = "''This instrument does not exist''"
      and j = rejecting and rs = "[Message ''Invalid request'', Message ''price'']"] marker
  have "listen rejecting [Message ''This instrument does not exist'', Message ''Invalid request'',
                       Message ''price''] (fst (NewTickStream True))
        = listen rejecting [Message ''Invalid request'', Message ''price'']
            ((fst (NewTickStream True))\<lparr>stream.errorChannel :=
               stream.errorChannel (fst (NewTickStream True)) @ [ErrUnknownISIN]\<rparr>)"
    by simp
  then show ?thesis
    using on marker by (simp add: go_eval)
qed

text \<open>The loop of the stream with the watchdog treats the two markers in the same way.\<close>

lemma listen_turn_rw_markers:
  "isUnknownISIN msg \<Longrightarrow>
     listen_turn_rw j (Message msg) lms = Inr (loop_test (emit_rw ErrUnknownISIN lms))"
  "\<not> isUnknownISIN msg \<Longrightarrow> isInvalidRequest msg \<Longrightarrow>
     listen_turn_rw j (Message msg) lms = Inr (loop_test (emit_rw ErrInvalidRequest lms))"
  by (simp_all add: listen_turn_rw_def)

section \<open>Subscribing twice, unsubscribing what is absent\<close>

lemma Subscribe_again:
  assumes "stream.subscriptions lms = Some subs" and "subs x \<noteq> None"
  shows "Subscribe x lms = Inr lms"
  using assms by (simp add: Subscribe_def exists_def)

text \<open>
  Claim C6. On a connected stream of \<^verbatim>\<open>lemon.go\<close> that does not hold \<open>x\<close> yet,
  \<open>Subscribe x\<close> followed by \<open>Subscribe x\<close> returns twice and the second call changes
  nothing: after both, the map holds \<open>x\<close> beside the keys it had (a map holds a key once),
  and the connection has been handed exactly one more value, the subscribe message for \<open>x\<close>.
  \<open>Unsubscribe x\<close> of the absent \<open>x\<close> returns the stream as it was: nothing is written, the
  map is the same.
\<close>

theorem Subscribe_twice_Unsubscribe_absent:
  assumes "stream.subscriptions lms = Some subs" and "subs x = None"
    and "stream.connection lms = Some c" and "\<not> closed c"
    and "Action (stream.getSubscription lms) = ''subscribe''"
  shows "(\<exists>lms1 c1 subs1.
            Subscribe x lms = Inr lms1 \<and> Subscribe x lms1 = Inr lms1
            \<and> stream.connection lms1 = Some c1
            \<and> written c1 =
                written c @ [\<lparr>Action = ''subscribe'',
                              Specifier = Specifier (stream.getSubscription lms),
                              lemonMarketSubscription.ISIN = x\<rparr>]
            \<and> stream.subscriptions lms1 = Some subs1 \<and> dom subs1 = insert x (dom subs))
         \<and> Unsubscribe x lms = Inr lms"
proof -
  let ?m = "(stream.getSubscription lms)\<lparr>lemonMarketSubscription.ISIN := x\<rparr>"
  let ?lms1 = "lms\<lparr>stream.subscriptions := Some (subs(x \<mapsto> 1)),
                   stream.connection := Some (WriteJSON ?m c)\<rparr>"
  have first: "Subscribe x lms = Inr ?lms1"
    using assms by (simp add: Subscribe_def exists_def)
  have second: "Subscribe x ?lms1 = Inr ?lms1"
    by (rule Subscribe_again [where subs = "subs(x \<mapsto> 1)"]) simp_all
  have m: "?m = \<lparr>Action = ''subscribe'', Specifier = Specifier (stream.getSubscription lms),
                 lemonMarketSubscription.ISIN = x\<rparr>"
    using assms(5) by (cases "stream.getSubscription lms") simp
  have wr: "written (WriteJSON ?m c) = written c @ [?m]"
    using assms(4) by (simp add: WriteJSON_def)
  have "\<exists>lms1 c1 subs1.
            Subscribe x lms = Inr lms1 \<and> Subscribe x lms1 = Inr lms1
            \<and> stream.connection lms1 = Some c1
            \<and> written c1 = written c @ [?m]
            \<and> stream.subscriptions lms1 = Some subs1 \<and> dom subs1 = insert x (dom subs)"
    using first second wr
    by (intro exI [of _ ?lms1] exI [of _ "WriteJSON ?m c"] exI [of _ "subs(x \<mapsto> 1)"]) simp
  moreover have "Unsubscribe x lms = Inr lms"
    using assms by (simp add: Unsubscribe_def exists_def)
  ultimately show ?thesis
    unfolding m by blast
qed

theorem Subscribe_twice_Unsubscribe_absent_witness:
  "(\<exists>lms1 c1 subs1.
      Subscribe ''US88160R1014'' (fst (NewTickStream True)) = Inr lms1
      \<and> Subscribe ''US88160R1014'' lms1 = Inr lms1
      \<and> stream.connection lms1 = Some c1
      \<and> written c1 =
          [\<lparr>Action = ''subscribe'', Specifier = ''with-quantity-with-uncovered'',
            lemonMarketSubscription.ISIN = ''US88160R1014''\<rparr>]
      \<and> stream.subscriptions lms1 = Some subs1 \<and> dom subs1 = {''US88160R1014''})
   \<and> Unsubscribe ''US88160R1014'' (fst (NewTickStream True)) = Inr (fst (NewTickStream True))"
  using Subscribe_twice_Unsubscribe_absent
          [of "fst (NewTickStream True)" Map.empty "''US88160R1014''" Dialed]
  by (simp add: NewTickStream_def connect_def Dialed_def)

text \<open>The stream with the watchdog does the same.\<close>

lemma Subscribe_rw_twice:
  assumes "stream_rw.subscriptions lms x = None"
    and "stream_rw.connection lms = Some c" and "\<not> closed c"
  shows "\<exists>lms1 c1.
           Subscribe_rw x lms = Inr lms1 \<and> Subscribe_rw x lms1 = Inr lms1
           \<and> stream_rw.connection lms1 = Some c1
           \<and> written c1 = written c @ [stream_rw.getSubscription lms x]
           \<and> dom (stream_rw.subscriptions lms1) = insert x (dom (stream_rw.subscriptions lms))"
  using assms by (simp add: Subscribe_rw_def sendSubscription_def WriteJSON_def)

lemma Unsubscribe_rw_absent:
  "stream_rw.subscriptions lms x = None \<Longrightarrow> Unsubscribe_rw x lms = Inr lms"
  by (simp add: Unsubscribe_rw_def)

section \<open>\<^verbatim>\<open>Disconnect\<close> twice\<close>

text \<open>In \<^verbatim>\<open>lemon.go\<close> a second \<^verbatim>\<open>Disconnect\<close> returns and changes nothing, and
  \<^verbatim>\<open>Subscribe\<close> and \<^verbatim>\<open>Unsubscribe\<close> after \<^verbatim>\<open>Disconnect\<close> return without touching the
  connection, the flag or the error channel.\<close>

lemma Disconnect_twice:
  assumes "Disconnect lms = Inr lms'"
  shows "Disconnect lms' = Inr lms'"
  using assms by (auto simp: Disconnect_def Close_def split: option.splits)

lemma after_Disconnect:
  assumes "Disconnect lms = Inr lms'" and "stream.subscriptions lms = Some subs"
  shows "\<exists>lms''. Subscribe x lms' = Inr lms'' \<and> stream.connection lms'' = stream.connection lms'
           \<and> stream.processData lms'' = stream.processData lms'
           \<and> stream.errorChannel lms'' = stream.errorChannel lms'"
    and "\<exists>lms''. Unsubscribe x lms' = Inr lms'' \<and> stream.connection lms'' = stream.connection lms'
           \<and> stream.processData lms'' = stream.processData lms'
           \<and> stream.errorChannel lms'' = stream.errorChannel lms'"
  using assms
  by (auto simp: Disconnect_def Subscribe_def Unsubscribe_def exists_def Close_def WriteJSON_def
        split: option.splits)

text \<open>
  Claim C7 asks that a second \<^verbatim>\<open>Disconnect()\<close> is a safe no-op. In the stream with the
  watchdog \<^verbatim>\<open>Disconnect\<close> closes the notifier each time: on a connected stream the first
  call returns and the second call panics, closing a closed channel.
\<close>

theorem Disconnect_rw_twice_panics:
  "map_sum id GetState (and_then (NewTickStream_rw True) (run_rw rejecting [CallDisconnect]))
     = Inr State_disconnected
   \<and> and_then (NewTickStream_rw True) (run_rw rejecting [CallDisconnect, CallDisconnect])
     = Inl CloseOfClosedChannel"
  by (simp add: rw_eval)

text \<open>On a stream whose first dial failed the connection is still \<^verbatim>\<open>nil\<close>, and the first
  \<^verbatim>\<open>Disconnect\<close> already stops in \<^verbatim>\<open>lms.connection.Close()\<close>.\<close>

lemma Disconnect_rw_never_connected:
  "and_then (NewTickStream_rw False) (run_rw rejecting [CallDisconnect])
     = Inl NilPointerDereference"
  by (simp add: rw_eval)

section \<open>The action of an unsubscription\<close>

text \<open>\<^verbatim>\<open>lemon.go\<close> and the stream with the watchdog write the action \<^verbatim>\<open>unsubscribe\<close>.\<close>

lemma Unsubscribe_sends_unsubscribe:
  assumes "stream.subscriptions lms = Some subs" and "subs x \<noteq> None"
    and "stream.connection lms = Some c" and "\<not> closed c"
  shows "Unsubscribe x lms =
           Inr (lms\<lparr>stream.subscriptions := Some (subs(x := None)),
                    stream.connection :=
                      Some (c\<lparr>written := written c @
                                 [\<lparr>Action = ''unsubscribe'', Specifier = [],
                                   lemonMarketSubscription.ISIN = x\<rparr>]\<rparr>)\<rparr>)"
  using assms by (simp add: Unsubscribe_def exists_def WriteJSON_def)

lemma Unsubscribe_rw_sends_unsubscribe:
  assumes "stream_rw.subscriptions lms x \<noteq> None"
    and "stream_rw.connection lms = Some c" and "\<not> closed c"
  shows "Unsubscribe_rw x lms =
           Inr (lms\<lparr>stream_rw.subscriptions := (stream_rw.subscriptions lms)(x := None),
                    stream_rw.connection :=
                      Some (c\<lparr>written := written c @
                                 [\<lparr>Action = ''unsubscribe'', Specifier = [],
                                   lemonMarketSubscription.ISIN = x\<rparr>]\<rparr>)\<rparr>)"
  using assms by (simp add: Unsubscribe_rw_def WriteJSON_def)

text \<open>
  Claim C8 asks that \<^verbatim>\<open>Unsubscribe\<close> of a registered id sends a message whose action is
  \<^verbatim>\<open>unsubscribe\<close>. In \<^verbatim>\<open>LemonMarketsStream\<close> the constant \<^verbatim>\<open>ACTION_UNSUBSCRIBE\<close> is the
  string \<^verbatim>\<open>subscribe\<close>: after \<^verbatim>\<open>Subscribe\<close> and \<^verbatim>\<open>Unsubscribe\<close> of one id, each of the two
  connections has been handed two messages, both with the action \<^verbatim>\<open>subscribe\<close>.
\<close>

theorem Unsubscribe_lms_sends_subscribe:
  "map_sum id marketdataConnection
     (and_then (Subscribe_lms ''DE000TUAG000'' (projr (NewLemonMarketsStream True True)))
        (Unsubscribe_lms ''DE000TUAG000''))
   = Inr (Some \<lparr>closed = False,
                 written =
                   [\<lparr>Action = ''subscribe'', Specifier = ''with-quantity-with-uncovered'',
                     lemonMarketSubscription.ISIN = ''DE000TUAG000''\<rparr>,
                    \<lparr>Action = ''subscribe'', Specifier = [],
                     lemonMarketSubscription.ISIN = ''DE000TUAG000''\<rparr>]\<rparr>)
   \<and> map_sum id quotesConnection
     (and_then (Subscribe_lms ''DE000TUAG000'' (projr (NewLemonMarketsStream True True)))
        (Unsubscribe_lms ''DE000TUAG000''))
   = Inr (Some \<lparr>closed = False,
                 written =
                   [\<lparr>Action = ''subscribe'', Specifier = ''with-quantity-with-price'',
                     lemonMarketSubscription.ISIN = ''DE000TUAG000''\<rparr>,
                    \<lparr>Action = ''subscribe'', Specifier = [],
                     lemonMarketSubscription.ISIN = ''DE000TUAG000''\<rparr>]\<rparr>)"
  by (simp add: NewLemonMarketsStream_def connect_lms_def Subscribe_lms_def Unsubscribe_lms_def
        and_then_def WriteJSON_def Dialed_def ACTION_SUBSCRIBE_def ACTION_UNSUBSCRIBE_def
        SPECIFIER_WITH_QUANTITIY_AND_UNCOVERED_def SPECIFIER_WITH_QUANTITY_WITH_PRICE_def)

section \<open>The raw-message channel\<close>

text \<open>
  Claim C9 as it is stated, that every payload read is forwarded to the raw-message
  channel, error markers included, is false: with the channel set, a payload holding
  either marker leaves it empty.
\<close>

theorem marker_payload_not_tapped:
  "stream.rawMessages
     (listen_turn rejecting (Message ''Invalid request'')
        (SetRawMessageChannel (Some []) (fst (NewTickStream True)))) = Some []
   \<and> stream.rawMessages
     (listen_turn rejecting (Message ''This instrument does not exist'')
        (SetRawMessageChannel (Some []) (fst (NewTickStream True)))) = Some []"
  by (simp add: go_eval)

text \<open>
  Claim C9, amended. While the stream of \<^verbatim>\<open>lemon.go\<close> processes data and a raw-message
  channel is set, a payload that holds neither error marker is sent into it unchanged,
  whether or not it decodes afterwards; a payload that holds a marker is not sent into it.
\<close>

theorem tap_forwards_what_is_decoded:
  assumes "stream.processData lms" and "stream.rawMessages lms = Some sent"
  shows "stream.rawMessages (listen_turn j (Message msg) lms)
           = Some (if isUnknownISIN msg \<or> isInvalidRequest msg then sent else sent @ [msg])"
  using assms by (simp add: listen_turn_def emit_def decode_keeps tap_def)

theorem tap_forwards_what_is_decoded_witness:
  "stream.rawMessages
     (listen_turn rejecting (Message ''price'')
        (SetRawMessageChannel (Some []) (fst (NewTickStream True)))) = Some [''price'']
   \<and> stream.errorChannel
     (listen_turn rejecting (Message ''price'')
        (SetRawMessageChannel (Some []) (fst (NewTickStream True)))) = [UnmarshalError ''rejected'']"
proof -
  have on: "stream.processData (SetRawMessageChannel (Some []) (fst (NewTickStream True)))"
    by (simp add: go_eval)
  have set: "stream.rawMessages (SetRawMessageChannel (Some []) (fst (NewTickStream True))) = Some []"
    by (simp add: go_eval)
  from tap_forwards_what_is_decoded [OF on set, of rejecting "''price''"]
  show ?thesis
    by (simp add: go_eval)
qed

end
